theory Spec2Isabelle
  imports Main "HOL-Library.Sublist" "HOL-Library.Char_ord" "HOL-Library.List_Lexorder"
begin

section \<open>Strings as Python sees them\<close>

text \<open>
  The program is \<^verbatim>\<open>ms_filter.py\<close>. A Python \<^verbatim>\<open>str\<close> is modelled as a \<^typ>\<open>string\<close> whose
  characters are the code points 0 to 255 (Latin-1); on that range \<^verbatim>\<open>str.lower\<close>, the
  word characters of \<^verbatim>\<open>\w\<close> and the case folding of \<^verbatim>\<open>re.IGNORECASE\<close> are the finite
  tables written out below. Code points beyond 255 are outside the model.
\<close>

definition ord :: "char \<Rightarrow> nat" where
  "ord c = of_char c"

definition bslash :: char where
  "bslash = CHR 0x5C"

definition dquote :: char where
  "dquote = CHR 0x22"

definition squote :: char where
  "squote = CHR 0x27"

definition is_upper :: "char \<Rightarrow> bool" where
  "is_upper c = (let n = ord c in
     (65 \<le> n \<and> n \<le> 90) \<or> (192 \<le> n \<and> n \<le> 222 \<and> n \<noteq> 215))"

definition lower_char :: "char \<Rightarrow> char" where
  "lower_char c = (if is_upper c then char_of (ord c + 32) else c)"

definition lower :: "string \<Rightarrow> string" where
  "lower s = map lower_char s"

definition is_ascii_alnum :: "char \<Rightarrow> bool" where
  "is_ascii_alnum c = (let n = ord c in
     (48 \<le> n \<and> n \<le> 57) \<or> (65 \<le> n \<and> n \<le> 90) \<or> (97 \<le> n \<and> n \<le> 122))"

text \<open>The characters matched by \<^verbatim>\<open>\w\<close> in a \<^verbatim>\<open>str\<close> pattern: alphanumerics and the underscore.\<close>

definition is_word :: "char \<Rightarrow> bool" where
  "is_word c = (let n = ord c in
     is_ascii_alnum c \<or> n = 95
     \<or> n \<in> {170, 178, 179, 181, 185, 186, 188, 189, 190}
     \<or> (192 \<le> n \<and> n \<noteq> 215 \<and> n \<noteq> 247))"

text \<open>The characters removed by \<^verbatim>\<open>str.strip()\<close>.\<close>

definition is_space :: "char \<Rightarrow> bool" where
  "is_space c = (let n = ord c in
     (9 \<le> n \<and> n \<le> 13) \<or> (28 \<le> n \<and> n \<le> 32) \<or> n = 133 \<or> n = 160)"

definition strip :: "string \<Rightarrow> string" where
  "strip s = rev (dropWhile is_space (rev (dropWhile is_space s)))"

text \<open>\<^verbatim>\<open>s.split(sep)\<close> for a one-character separator: never the empty list.\<close>

fun split_on :: "char \<Rightarrow> string \<Rightarrow> string list" where
  "split_on sep [] = [[]]"
| "split_on sep (c # cs) =
     (if c = sep then [] # split_on sep cs
      else (case split_on sep cs of [] \<Rightarrow> [[c]] | p # ps \<Rightarrow> (c # p) # ps))"

text \<open>\<^verbatim>\<open>sub in s\<close>, \<^verbatim>\<open>s.startswith(p)\<close> and \<^verbatim>\<open>s.endswith(p)\<close>.\<close>

fun contains :: "string \<Rightarrow> string \<Rightarrow> bool" where
  "contains sub [] = (sub = [])"
| "contains sub (c # cs) = (prefix sub (c # cs) \<or> contains sub cs)"

definition startswith :: "string \<Rightarrow> string \<Rightarrow> bool" where
  "startswith s p = prefix p s"

definition endswith :: "string \<Rightarrow> string \<Rightarrow> bool" where
  "endswith s p = suffix p s"

section \<open>The fragment of Python's regular expressions the program uses\<close>

text \<open>
  Every pattern of the program is compiled with \<^verbatim>\<open>re.IGNORECASE\<close> and used with
  \<^verbatim>\<open>search\<close>. The term tables use literals, \<^verbatim>\<open>\b\<close>, a character class of plain
  characters and one non-capturing group of literal alternatives; the food-key patterns
  are \<^verbatim>\<open>\b\<close> around an escaped literal. \<^verbatim>\<open>re_parse\<close> reads exactly that fragment and
  answers \<open>None\<close> (standing for \<^verbatim>\<open>re.error\<close>, or for syntax outside the fragment)
  otherwise.
\<close>

datatype atom = Lit char | Bnd | Cls "char list" | Alt "string list"

fun split_at :: "char \<Rightarrow> string \<Rightarrow> (string \<times> string) option" where
  "split_at d [] = None"
| "split_at d (c # cs) =
     (if c = d then Some ([], cs)
      else map_option (\<lambda>(a, b). (c # a, b)) (split_at d cs))"

definition is_meta :: "char \<Rightarrow> bool" where
  "is_meta c = (c \<in> set ''.^$*+?{}[]|()'')"

function re_parse :: "string \<Rightarrow> atom list option" where
  "re_parse [] = Some []"
| "re_parse (c # p) =
     (if c = bslash then
        (case p of
           [] \<Rightarrow> None
         | e # p' \<Rightarrow>
             if e = CHR ''b'' then map_option ((#) Bnd) (re_parse p')
             else if is_ascii_alnum e then None
             else map_option ((#) (Lit e)) (re_parse p'))
      else if c = CHR ''['' then
        (case split_at CHR '']'' p of
           None \<Rightarrow> None
         | Some (body, p') \<Rightarrow>
             if body = ''-'' \<or> (body \<noteq> [] \<and> list_all is_ascii_alnum body)
             then map_option ((#) (Cls body)) (re_parse p')
             else None)
      else if c = CHR ''('' then
        (case split_at CHR '')'' p of
           None \<Rightarrow> None
         | Some (body, p') \<Rightarrow>
             if prefix ''?:'' body
                \<and> list_all (\<lambda>x. is_ascii_alnum x \<or> x = CHR ''|'') (drop 2 body)
             then map_option ((#) (Alt (split_on CHR ''|'' (drop 2 body)))) (re_parse p')
             else None)
      else if is_meta c then None
      else map_option ((#) (Lit c)) (re_parse p))"
  by pat_completeness auto
termination
proof -
  have shorter: "length b < length s" if "split_at d s = Some (a, b)" for d s a b
    using that by (induction s arbitrary: a) (auto split: if_splits)
  show ?thesis
    by (relation "measure length") (auto dest: shorter)
qed

text \<open>A compiled pattern object: its source text and its program.\<close>

datatype re_pattern = Pattern (pattern: string) (prog: "atom list")

definition re_compile :: "string \<Rightarrow> re_pattern option" where
  "re_compile p = map_option (Pattern p) (re_parse p)"

definition ci_eq :: "char \<Rightarrow> char \<Rightarrow> bool" where
  "ci_eq a b = (lower_char a = lower_char b)"

text \<open>
  \<^verbatim>\<open>\b\<close> holds between a word character and a non-word character, the two ends of the
  text counting as non-word. \<open>prev\<close> is the character before the current position.
\<close>

definition at_boundary :: "char option \<Rightarrow> string \<Rightarrow> bool" where
  "at_boundary prev s =
     ((case prev of None \<Rightarrow> False | Some c \<Rightarrow> is_word c)
      \<noteq> (case s of [] \<Rightarrow> False | c # _ \<Rightarrow> is_word c))"

fun eat :: "string \<Rightarrow> char option \<Rightarrow> string \<Rightarrow> (char option \<times> string) option" where
  "eat [] prev s = Some (prev, s)"
| "eat (a # as) prev [] = None"
| "eat (a # as) prev (x # xs) = (if ci_eq a x then eat as (Some x) xs else None)"

fun match_here :: "atom list \<Rightarrow> char option \<Rightarrow> string \<Rightarrow> bool" where
  "match_here [] prev s = True"
| "match_here (Lit c # as) prev s =
     (case s of [] \<Rightarrow> False | x # xs \<Rightarrow> ci_eq c x \<and> match_here as (Some x) xs)"
| "match_here (Bnd # as) prev s = (at_boundary prev s \<and> match_here as prev s)"
| "match_here (Cls cs # as) prev s =
     (case s of [] \<Rightarrow> False
      | x # xs \<Rightarrow> list_ex (\<lambda>c. ci_eq c x) cs \<and> match_here as (Some x) xs)"
| "match_here (Alt alts # as) prev s =
     list_ex (\<lambda>alt. case eat alt prev s of
                       None \<Rightarrow> False
                     | Some (prev', s') \<Rightarrow> match_here as prev' s') alts"

fun search_from :: "atom list \<Rightarrow> char option \<Rightarrow> string \<Rightarrow> bool" where
  "search_from as prev [] = match_here as prev []"
| "search_from as prev (x # xs) =
     (match_here as prev (x # xs) \<or> search_from as (Some x) xs)"

text \<open>\<^verbatim>\<open>rgx.search(text)\<close>, read as a truth value.\<close>

definition re_search :: "re_pattern \<Rightarrow> string \<Rightarrow> bool" where
  "re_search rgx text = search_from (prog rgx) None text"

text \<open>\<^verbatim>\<open>any(rgx.search(text) for rgx in rgxs)\<close>.\<close>

definition any_search :: "re_pattern list \<Rightarrow> string \<Rightarrow> bool" where
  "any_search rgxs text = list_ex (\<lambda>rgx. re_search rgx text) rgxs"

text \<open>\<^verbatim>\<open>re.escape\<close>: a backslash before each special character.\<close>

definition is_special :: "char \<Rightarrow> bool" where
  "is_special c = (c \<in> set ''()[]{}?*+-|^$.&~# '' \<or> c = bslash
     \<or> (9 \<le> ord c \<and> ord c \<le> 13))"

definition re_escape :: "string \<Rightarrow> string" where
  "re_escape s = concat (map (\<lambda>c. if is_special c then [bslash, c] else [c]) s)"

section \<open>The keyword tables\<close>

text \<open>
  The seven term lists of the source, as pattern texts. A backslash cannot be written
  inside an Isabelle string literal, so \<^verbatim>\<open>r"\braw\b"\<close> is spelled with \<^const>\<open>bslash\<close>.
\<close>

definition wb :: string where
  "wb = [bslash, CHR ''b'']"

definition RAW_TERMS :: "string list" where
  "RAW_TERMS = [wb @ ''raw'' @ wb, ''unprocessed'', ''fresh'', ''uncooked'', ''natural'',
     ''crude'', ''whole'']"

definition CONTROL_TERMS :: "string list" where
  "CONTROL_TERMS = [
     ''control'', ''ctrl'', ''cntrl'', ''ctl'', ''uninfected'', ''untreated'', ''baseline'',
     ''wild_type'', ''wt'', ''wildtype'', ''parental'', ''initial'', ''input'',
     ''t0'' @ wb, ''time0'', ''day0'', ''0h'' @ wb, ''0hr'' @ wb, ''zerohr'', ''0_hr'',
     ''pre_treatment'', ''before_processing'', ''pre[-]processing'', ''before[-]processing'',
     ''mock'']"

definition GENERIC_EDIBLE_PART_TERMS :: "string list" where
  "GENERIC_EDIBLE_PART_TERMS = [
     ''grain'', ''kernel'', ''seed'', ''berry'', ''endosperm'', ''embryo'', ''germ'', ''cereal'',
     ''fruit'', ''pulp'', ''flesh'', ''peel'', ''skin'',
     ''vegetable'', ''leafy_green'', ''root_veg'', ''tuber_veg'',
     ''edible_part'', ''sample'']"

definition PROCESSED_TERMS :: "string list" where
  "PROCESSED_TERMS = [
     ''beer'', ''ale'', ''lager'', ''brew'', ''wort'', ''malt'', ''ferment'', ''sourdough'',
     ''bread'', ''pasta'', ''noodle'', ''cake'', ''biscuit'', ''cookie'', ''pastry'',
     ''syrup'', ''starch'', ''ethanol'', ''biofuel'', ''distillate'', ''mash'', ''slurry'',
     ''cook'', ''bake'', ''baked'', ''fried'', ''toast'', ''roast'', ''steam'', ''boil'',
     ''autoclave'',
     ''extract'', ''digest'', ''hydroly[sz](?:ate|ed)'', ''supernatant'', ''pellet'',
     ''flour'', ''meal'', ''grit'', ''semolina'', ''paste'', ''puree'', ''juice'', ''smoothie'',
     ''extrude'', ''puff'', ''flake'', ''instant'', ''processed'']"

definition NON_EDIBLE_PLANT_PARTS :: "string list" where
  "NON_EDIBLE_PLANT_PARTS = [
     ''leaf'', ''leaves'', ''foliage'', ''stem'', ''stalk'', ''shoot'', ''stover'', ''culm'',
     ''root'', ''rhizome'',
     ''seedling'', ''sprout'',
     ''husk'', ''hull'', ''bran'', ''chaff'', ''glume'', ''lemma'', ''palea'',
     ''tassel'', ''silk'', ''anther'', ''pollen'', ''flower'',
     ''callus'', ''cell_culture'', ''suspension_culture'', ''plant_tissue'']"

definition TREATMENT_PATHOGEN_TERMS :: "string list" where
  "TREATMENT_PATHOGEN_TERMS = [
     ''infect'', ''pathogen'', ''disease'', ''lesion'', ''symptom'',
     ''fungi'', ''bacteria'', ''virus'', ''oomycete'', ''nematode'',
     ''treat'', ''treatment'', ''stress'', ''elicitor'', ''induc'',
     ''pesticide'', ''herbicide'', ''fungicide'', ''insecticide'', ''fertilizer'',
     ''mutant'', ''transgenic'', ''gmo'', ''knockout'', ''overexpress'']"

definition NON_SAMPLE_QC_TERMS :: "string list" where
  "NON_SAMPLE_QC_TERMS = [
     ''qc'', ''quality_control'', ''qa'', ''system_suitability'', ''sst'',
     ''blank'', ''solvent_blank'', ''method_blank'', ''instrument_blank'', ''reagent_blank'',
     ''wash'', ''equilibration'', ''conditioning'', ''gradient_test'',
     ''standard'', ''std'', ''ref_mat'', ''reference_material'', ''calib'',
     ''tune'', ''mass_cal'', ''msms_check'', ''tryptic_digest_std'']"

text \<open>
  \<^verbatim>\<open>compile_regex_list\<close> compiles every term; a term that did not compile would stop the
  module at import, so the model keeps the patterns that compile and
  \<open>tables_compile\<close> below shows that none is lost.
\<close>

definition compile_regex_list :: "string list \<Rightarrow> re_pattern list" where
  "compile_regex_list terms = List.map_filter re_compile terms"

definition COMPILED_RAW :: "re_pattern list" where
  "COMPILED_RAW = compile_regex_list RAW_TERMS"

definition COMPILED_CONTROL :: "re_pattern list" where
  "COMPILED_CONTROL = compile_regex_list CONTROL_TERMS"

definition COMPILED_GENERIC_EDIBLE_PART :: "re_pattern list" where
  "COMPILED_GENERIC_EDIBLE_PART = compile_regex_list GENERIC_EDIBLE_PART_TERMS"

definition COMPILED_PROCESSED :: "re_pattern list" where
  "COMPILED_PROCESSED = compile_regex_list PROCESSED_TERMS"

definition COMPILED_NON_EDIBLE :: "re_pattern list" where
  "COMPILED_NON_EDIBLE = compile_regex_list NON_EDIBLE_PLANT_PARTS"

definition COMPILED_TREATMENT :: "re_pattern list" where
  "COMPILED_TREATMENT = compile_regex_list TREATMENT_PATHOGEN_TERMS"

definition COMPILED_QC :: "re_pattern list" where
  "COMPILED_QC = compile_regex_list NON_SAMPLE_QC_TERMS"

section \<open>Python values\<close>

text \<open>
  A dataset record is a \<^verbatim>\<open>dict\<close> read from JSON: its fields hold values of any JSON
  type, and the program compares and tests them without checking the type first.
  Floating-point numbers are left out: no field the program reads or writes is one.
\<close>

datatype pyval =
    PNone
  | PBool bool
  | PInt int
  | PStr string
  | PList "pyval list"
  | PDict "(string \<times> pyval) list"

fun truthy :: "pyval \<Rightarrow> bool" where
  "truthy PNone = False"
| "truthy (PBool b) = b"
| "truthy (PInt i) = (i \<noteq> 0)"
| "truthy (PStr s) = (s \<noteq> [])"
| "truthy (PList xs) = (xs \<noteq> [])"
| "truthy (PDict kvs) = (kvs \<noteq> [])"

section \<open>Filename heuristic filtering\<close>

definition check_filename_relevance ::
  "string \<Rightarrow> re_pattern list \<Rightarrow> pyval \<Rightarrow> bool \<times> string" where
  "check_filename_relevance filename_lower derived_food_name_regex_list assessment_type =
    (if any_search COMPILED_QC filename_lower then
       (False, ''qc_or_blank_file'')
     else if assessment_type = PStr ''ACCEPTED'' then
       (True, ''accepted_study_non_qc_file'')
     else if assessment_type = PStr ''MAYBE'' then
       (let food_match = any_search derived_food_name_regex_list filename_lower in
        if any_search COMPILED_PROCESSED filename_lower
           \<and> \<not> (any_search COMPILED_CONTROL filename_lower
                  \<or> any_search COMPILED_RAW filename_lower) then
          (False, ''maybe_processed_product_no_raw_control_signal'')
        else if any_search COMPILED_NON_EDIBLE filename_lower
           \<and> \<not> (any_search COMPILED_GENERIC_EDIBLE_PART filename_lower
                  \<or> any_search COMPILED_CONTROL filename_lower) then
          (False, ''maybe_non_edible_part_no_edible_control_signal'')
        else
          (let has_treatment_term = any_search COMPILED_TREATMENT filename_lower;
               has_control_term = any_search COMPILED_CONTROL filename_lower;
               has_raw_term = any_search COMPILED_RAW filename_lower;
               has_generic_edible_term = any_search COMPILED_GENERIC_EDIBLE_PART filename_lower
           in
           if food_match \<and> (has_raw_term \<or> has_control_term \<or> has_generic_edible_term) then
             (True, ''maybe_food_match_with_raw_control_or_edible_term'')
           else if has_raw_term \<or> has_control_term then
             (if has_treatment_term \<and> \<not> (has_raw_term \<or> has_control_term) then
                (False, ''maybe_treatment_file_no_food_match_lacks_explicit_control_raw'')
              else (True, ''maybe_no_food_match_but_strong_raw_control_signal''))
           else if has_treatment_term
                   \<and> \<not> (has_control_term \<or> has_raw_term \<or> has_generic_edible_term
                          \<or> food_match) then
             (False, ''maybe_treatment_file_lacks_any_positive_signal'')
           else (False, ''maybe_lacks_sufficient_positive_signal'')))
     else (False, ''unknown_assessment_type_or_unmatched_condition_in_heuristic''))"

section \<open>Configuration\<close>

definition MAX_FILES_FOR_MS2_COUNTING :: nat where
  "MAX_FILES_FOR_MS2_COUNTING = 10"

definition ENABLE_MSCONVERT_PROCESSING :: bool where
  "ENABLE_MSCONVERT_PROCESSING = False"

definition SUPPORTED_EXTENSIONS_LOWER :: "string list" where
  "SUPPORTED_EXTENSIONS_LOWER = [''.mzxml'', ''.mgf'', ''.mzml'', ''.cdf'']"

definition MSCONVERT_SUPPORTED_RAW_EXTENSIONS :: "string list" where
  "MSCONVERT_SUPPORTED_RAW_EXTENSIONS = [''.raw'', ''.wiff'', ''.d'']"

definition TEXT_BASED_EXTENSIONS :: "string list" where
  "TEXT_BASED_EXTENSIONS = [''.mzxml'', ''.mgf'', ''.mzml'', ''.cdf'']"

section \<open>The food-key pattern generator\<close>

datatype py_error = AttributeError | ValueError | ReError | OtherError

text \<open>The list \<^verbatim>\<open>regex_strings\<close> before the whole key is appended: one pattern per
  underscore-delimited part longer than two characters.\<close>

definition token_regex_strings :: "string \<Rightarrow> string list" where
  "token_regex_strings food_item_key_str =
     (let parts = map re_escape (filter (\<lambda>part. length part > 2)
                                   (split_on CHR ''_'' food_item_key_str))
      in map (\<lambda>part. wb @ part @ wb) parts)"

definition food_regex_strings :: "string \<Rightarrow> string list" where
  "food_regex_strings food_item_key_str =
     (let full_key_escaped = re_escape food_item_key_str;
          regex_strings = token_regex_strings food_item_key_str
      in if full_key_escaped \<notin> set regex_strings
         then regex_strings @ [wb @ full_key_escaped @ wb]
         else regex_strings)"

text \<open>\<^verbatim>\<open>sorted(list(set(regex_strings)))\<close>, then one compiled pattern per string; a
  pattern that does not compile raises.\<close>

fun compile_all :: "string list \<Rightarrow> py_error + re_pattern list" where
  "compile_all [] = Inr []"
| "compile_all (rs # rss) =
     (case re_compile rs of
        None \<Rightarrow> Inl ReError
      | Some rgx \<Rightarrow> (case compile_all rss of Inl e \<Rightarrow> Inl e | Inr rgxs \<Rightarrow> Inr (rgx # rgxs)))"

definition get_derived_food_name_regex_list :: "string \<Rightarrow> py_error + re_pattern list" where
  "get_derived_food_name_regex_list food_item_key_str =
     (if food_item_key_str = [] then Inr []
      else (let unique_regex_strings = sort (remdups (food_regex_strings food_item_key_str))
            in compile_all unique_regex_strings))"

section \<open>The outside world\<close>

text \<open>
  The program reaches the network by running shell commands. The model threads a world
  state \<open>'w\<close> through every such call: \<open>run_shell env cmd timeout w\<close> is
  \<^verbatim>\<open>subprocess.run(cmd, shell=True, capture_output=True, text=True, timeout=timeout)\<close>.
  Its answer is \<^verbatim>\<open>TimeoutExpired\<close>, a completed process, or \<open>RunFailed\<close>: any other
  exception the call raises (a \<^verbatim>\<open>UnicodeDecodeError\<close> on output that is not valid text,
  for one), which no handler of the program catches and which the model carries as
  \<open>OtherError\<close>.
  Three library functions are taken as given: \<^verbatim>\<open>urlparse\<close> (the pair of \<^verbatim>\<open>netloc\<close> and
  \<^verbatim>\<open>path\<close>, or \<open>None\<close> where it raises \<^verbatim>\<open>ValueError\<close>), \<^verbatim>\<open>int\<close> on a string, and the
  Docker conversion path (\<^verbatim>\<open>check_docker_availability() and
  process_binary_file_with_msconvert\<close>), which yields 0 when Docker is not available.
  Logging and timing are not modelled.
\<close>

datatype proc_result =
    TimeoutExpired
  | RunFailed
  | Completed (returncode: int) (stdout: string) (stderr: string)

record 'w env =
  run_shell :: "string \<Rightarrow> nat \<Rightarrow> 'w \<Rightarrow> proc_result \<times> 'w"
  urlparse :: "string \<Rightarrow> (string \<times> string) option"
  py_int :: "string \<Rightarrow> int option"
  msconvert_count :: "string \<Rightarrow> string \<Rightarrow> 'w \<Rightarrow> int \<times> 'w"

definition parse_ftp_path :: "'w env \<Rightarrow> string \<Rightarrow> py_error + (string \<times> string)" where
  "parse_ftp_path env ftp_link =
     (case urlparse env ftp_link of None \<Rightarrow> Inl ValueError | Some parsed \<Rightarrow> Inr parsed)"

section \<open>Listing the remote files\<close>

record file_info =
  ftp_full_path :: string
  filename :: string
  file_ext_lower :: string

text \<open>\<^verbatim>\<open>os.path.basename\<close> and \<^verbatim>\<open>os.path.splitext\<close> (POSIX).\<close>

definition basename :: "string \<Rightarrow> string" where
  "basename p = rev (takeWhile (\<lambda>c. c \<noteq> CHR ''/'') (rev p))"

text \<open>\<^verbatim>\<open>p.rfind(c)\<close>: the index of the last occurrence, or -1.\<close>

definition rfind :: "char \<Rightarrow> string \<Rightarrow> int" where
  "rfind c p = (if c \<in> set p
                then int (length p) - 1 - int (length (takeWhile (\<lambda>x. x \<noteq> c) (rev p)))
                else - 1)"

definition splitext :: "string \<Rightarrow> string \<times> string" where
  "splitext p =
     (let sepIndex = rfind CHR ''/'' p; dotIndex = rfind CHR ''.'' p
      in if dotIndex > sepIndex
            \<and> list_ex (\<lambda>c. c \<noteq> CHR ''.'')
                 (take (nat (dotIndex - (sepIndex + 1))) (drop (nat (sepIndex + 1)) p))
         then (take (nat dotIndex) p, drop (nat dotIndex) p)
         else (p, []))"

definition newline :: char where
  "newline = CHR 0x0A"

text \<open>The body of the loop over the lines of the listing: the descriptor a line adds to
  \<^verbatim>\<open>found_files\<close>, if any.\<close>

definition descriptor_of_line :: "string \<Rightarrow> file_info option" where
  "descriptor_of_line line =
     (let full_ftp_path = strip line
      in if full_ftp_path = [] \<or> endswith full_ftp_path ''/'' then None
         else (let filename = basename full_ftp_path;
                   file_ext = snd (splitext filename)
               in if lower file_ext \<in> set SUPPORTED_EXTENSIONS_LOWER
                  then Some \<lparr>ftp_full_path = full_ftp_path, filename = filename,
                              file_ext_lower = lower file_ext\<rparr>
                  else None))"

definition list_mass_spec_files_recursively ::
  "'w env \<Rightarrow> string \<Rightarrow> string \<Rightarrow> 'w \<Rightarrow> (py_error + file_info list) \<times> 'w" where
  \<open>list_mass_spec_files_recursively env server base_ftp_path0 w =
     (let base_ftp_path = (if \<not> endswith base_ftp_path0 ''/'' then base_ftp_path0 @ ''/''
                           else base_ftp_path0);
          lftp_cmd = ''lftp -e \'set ftp:ssl-allow no; find '' @ base_ftp_path
                     @ ''; bye\' '' @ server
      in case run_shell env lftp_cmd 600 w of
           (TimeoutExpired, w') \<Rightarrow> (Inr [], w')
         | (RunFailed, w') \<Rightarrow> (Inl OtherError, w')
         | (Completed rc out err, w') \<Rightarrow>
             if rc \<noteq> 0 then (Inr [], w')
             else (Inr (List.map_filter descriptor_of_line (split_on newline (strip out))),
                   w'))\<close>

section \<open>Counting MS2 spectra\<close>

definition count_cmd_for :: "string \<Rightarrow> string \<Rightarrow> string \<Rightarrow> string option" where
  \<open>count_cmd_for server full_ftp_file_path ext =
     (let curl = ''curl --ftp-pasv -s \'ftp://'' @ server @ full_ftp_file_path @ ''\' | ''
      in if ext = ''.mzxml'' then
           Some (curl @ ''grep -c \'msLevel='' @ [dquote] @ ''2'' @ [dquote, squote])
         else if ext = ''.mgf'' then Some (curl @ ''grep -c \'BEGIN IONS'' @ [squote])
         else if ext = ''.mzml'' then
           Some (curl @ ''grep -c \'accession='' @ [dquote] @ ''MS:1000580'' @ [dquote, squote])
         else if ext = ''.cdf'' then
           Some (curl @ ''strings | grep -Ec \'scan_type=MSMS|msLevel=2'' @ [squote])
         else None)\<close>

definition count_ms2_spectra_in_text_file_via_ftp ::
  "'w env \<Rightarrow> string \<Rightarrow> string \<Rightarrow> string \<Rightarrow> 'w \<Rightarrow> (py_error + int) \<times> 'w" where
  "count_ms2_spectra_in_text_file_via_ftp env server full_ftp_file_path ext w =
     (case count_cmd_for server full_ftp_file_path ext of
        None \<Rightarrow> (Inr 0, w)
      | Some count_cmd \<Rightarrow>
          (case run_shell env count_cmd 3600 w of
             (TimeoutExpired, w') \<Rightarrow> (Inr 0, w')
           | (RunFailed, w') \<Rightarrow> (Inl OtherError, w')
           | (Completed rc out err, w') \<Rightarrow>
               if rc > 1 then (Inr 0, w')
               else (case py_int env (strip out) of
                       Some count \<Rightarrow> (Inr count, w')
                     | None \<Rightarrow> (Inr 0, w'))))"

section \<open>Processing one dataset\<close>

type_synonym dataset = "string \<rightharpoonup> pyval"

text \<open>An entry of \<^verbatim>\<open>candidate_files_for_ms2\<close>, and the \<^verbatim>\<open>dict\<close> it is in the record.\<close>

record selected_file =
  ftp_file_path :: string
  filename :: string
  file_ext_lower :: string
  heuristic_match_reason :: string
  ms2_spectra_in_file :: int

definition selected_file_dict :: "selected_file \<Rightarrow> pyval" where
  "selected_file_dict f = PDict [
     (''ftp_file_path'', PStr (ftp_file_path f)),
     (''filename'', PStr (selected_file.filename f)),
     (''file_ext_lower'', PStr (selected_file.file_ext_lower f)),
     (''heuristic_match_reason'', PStr (heuristic_match_reason f)),
     (''ms2_spectra_in_file'', PInt (ms2_spectra_in_file f))]"

text \<open>What a call leaves behind: the record as returned, or the exception raised and
  the record as mutated up to that point.\<close>

datatype outcome = Returned dataset | Raised py_error dataset

fun record_of :: "outcome \<Rightarrow> dataset" where
  "record_of (Returned d) = d"
| "record_of (Raised e d) = d"


text \<open>\<^verbatim>\<open>d.get(key, default)\<close>.\<close>

definition get_default :: "dataset \<Rightarrow> string \<Rightarrow> pyval \<Rightarrow> pyval" where
  "get_default d k dflt = (case d k of None \<Rightarrow> dflt | Some v \<Rightarrow> v)"

text \<open>\<^verbatim>\<open>llm_assessment.lower()\<close>: only a \<^verbatim>\<open>str\<close> has the method.\<close>

fun str_lower :: "pyval \<Rightarrow> py_error + string" where
  "str_lower (PStr s) = Inr (lower s)"
| "str_lower _ = Inl AttributeError"

text \<open>The body of the loop over \<^verbatim>\<open>all_ftp_files_info\<close>; the state is
  \<^verbatim>\<open>candidate_files_for_ms2\<close> and \<^verbatim>\<open>unsupported_skipped_this_study\<close>.\<close>

definition candidate_step ::
  "re_pattern list \<Rightarrow> pyval \<Rightarrow> selected_file list \<times> nat \<Rightarrow> file_info
   \<Rightarrow> selected_file list \<times> nat" where
  "candidate_step derived_food_name_regex llm_assessment st fi =
     (let (candidate_files_for_ms2, unsupported_skipped_this_study) = st;
          filename_lower = lower (file_info.filename fi);
          (is_relevant, reason) =
             check_filename_relevance filename_lower derived_food_name_regex llm_assessment
      in if is_relevant then
           (let is_msconvert_required =
                  (file_info.file_ext_lower fi \<in> set MSCONVERT_SUPPORTED_RAW_EXTENSIONS)
            in if is_msconvert_required \<and> \<not> ENABLE_MSCONVERT_PROCESSING then
                 (candidate_files_for_ms2, unsupported_skipped_this_study + 1)
               else
                 (candidate_files_for_ms2 @
                    [\<lparr>ftp_file_path = ftp_full_path fi,
                      filename = file_info.filename fi,
                      file_ext_lower = file_info.file_ext_lower fi,
                      heuristic_match_reason = reason,
                      ms2_spectra_in_file = 0\<rparr>],
                  unsupported_skipped_this_study))
         else st)"

text \<open>The sort key of the cap: 0 for a reason that mentions control or raw, 1 otherwise.\<close>

definition mentions_control_or_raw :: "selected_file \<Rightarrow> bool" where
  "mentions_control_or_raw x =
     (contains ''control'' (lower (heuristic_match_reason x))
      \<or> contains ''raw'' (lower (heuristic_match_reason x)))"

definition priority_key :: "selected_file \<Rightarrow> nat" where
  "priority_key x = (if mentions_control_or_raw x then 0 else 1)"

text \<open>\<^verbatim>\<open>files_to_process_for_ms2\<close>; Python's \<^verbatim>\<open>sorted\<close> is stable, as \<^const>\<open>sort_key\<close> is.\<close>

definition files_to_process_for_ms2 :: "selected_file list \<Rightarrow> selected_file list" where
  "files_to_process_for_ms2 candidate_files_for_ms2 =
     (if length candidate_files_for_ms2 > MAX_FILES_FOR_MS2_COUNTING
      then take MAX_FILES_FOR_MS2_COUNTING (sort_key priority_key candidate_files_for_ms2)
      else candidate_files_for_ms2)"

text \<open>The count of one selected file, by its extension: the \<^verbatim>\<open>if\<close> chain at the head of
  the body of the counting loop.\<close>

definition count_selected_file ::
  "'w env \<Rightarrow> string \<Rightarrow> selected_file \<Rightarrow> 'w \<Rightarrow> (py_error + int) \<times> 'w" where
  "count_selected_file env server selected_file_info w =
     (let ftp_path = ftp_file_path selected_file_info;
          file_ext = selected_file.file_ext_lower selected_file_info
      in if file_ext \<in> set TEXT_BASED_EXTENSIONS then
           count_ms2_spectra_in_text_file_via_ftp env server ftp_path file_ext w
         else if file_ext \<in> set MSCONVERT_SUPPORTED_RAW_EXTENSIONS then
           (if ENABLE_MSCONVERT_PROCESSING
            then (case msconvert_count env server ftp_path w of (c, w') \<Rightarrow> (Inr c, w'))
            else (Inr 0, w))
         else (Inr 0, w))"

text \<open>The counting loop; the state is \<^verbatim>\<open>total_ms2_spectra_for_study\<close>,
  \<^verbatim>\<open>processed_file_details\<close> and the world. An exception in a count ends the loop.\<close>

fun count_loop ::
  "'w env \<Rightarrow> string \<Rightarrow> selected_file list \<Rightarrow> int \<Rightarrow> selected_file list \<Rightarrow> 'w
   \<Rightarrow> (py_error + int \<times> selected_file list) \<times> 'w" where
  "count_loop env server [] total_ms2_spectra_for_study processed_file_details w =
     (Inr (total_ms2_spectra_for_study, processed_file_details), w)"
| "count_loop env server (selected_file_info # rest) total_ms2_spectra_for_study
     processed_file_details w =
     (case count_selected_file env server selected_file_info w of
        (Inl e, w') \<Rightarrow> (Inl e, w')
      | (Inr ms2_count_this_file, w') \<Rightarrow>
          count_loop env server rest
            (total_ms2_spectra_for_study + ms2_count_this_file)
            (processed_file_details
               @ [selected_file_info\<lparr>ms2_spectra_in_file := ms2_count_this_file\<rparr>])
            w')"

definition process_single_dataset ::
  "'w env \<Rightarrow> dataset \<Rightarrow> string \<Rightarrow> 'w \<Rightarrow> outcome \<times> 'w" where
  "process_single_dataset env dataset_info_item food_item_key w =
    (let llm_assessment = get_default dataset_info_item ''llm_assessment'' (PStr ''REJECTED'');
         d1 = dataset_info_item(
                ''selected_files_for_ms2_analysis'' \<mapsto> PList [],
                ''total_ms2_spectra_from_selected_files'' \<mapsto> PInt 0,
                ''unsupported_files_skipped_count'' \<mapsto> PInt 0)
     in
     if llm_assessment = PStr ''REJECTED'' then
       (Returned (d1(''ms2_count_source_type'' \<mapsto> PStr ''rejected_by_llm'')), w)
     else
     (let ftp_link = get_default d1 ''ftp_link'' (PStr []) in
      if \<not> truthy ftp_link then
        (Returned (d1(''ms2_count_source_type'' \<mapsto> PStr ''no_ftp_link'')), w)
      else
      (case ftp_link of
         PStr link \<Rightarrow>
          if \<not> startswith link ''ftp://'' then
            (Returned (d1(''ms2_count_source_type'' \<mapsto> PStr ''no_ftp_link'')), w)
          else
          (case get_derived_food_name_regex_list food_item_key of
             Inl e \<Rightarrow> (Raised e d1, w)
           | Inr derived_food_name_regex \<Rightarrow>
          (case parse_ftp_path env link of
             Inl e \<Rightarrow> (Raised e d1, w)
           | Inr (server, base_ftp_path) \<Rightarrow>
          (case list_mass_spec_files_recursively env server base_ftp_path w of
             (Inl e, w1) \<Rightarrow> (Raised e d1, w1)
           | (Inr all_ftp_files_info, w1) \<Rightarrow>
           if all_ftp_files_info = [] then
             (case str_lower llm_assessment of
                Inl e \<Rightarrow> (Raised e d1, w1)
              | Inr a \<Rightarrow>
                  (Returned (d1(''ms2_count_source_type'' \<mapsto>
                               PStr (''ftp_no_files_found_'' @ a))), w1))
           else
           (let (candidate_files_for_ms2, unsupported_skipped_this_study) =
                  foldl (candidate_step derived_food_name_regex llm_assessment) ([], 0)
                    all_ftp_files_info;
                d2 = d1(''unsupported_files_skipped_count'' \<mapsto>
                          PInt (int unsupported_skipped_this_study))
            in
            if candidate_files_for_ms2 = [] then
              (case str_lower llm_assessment of
                 Inl e \<Rightarrow> (Raised e d2, w1)
               | Inr a \<Rightarrow>
                   (Returned (d2(''ms2_count_source_type'' \<mapsto>
                       PStr (''no_processable_files_passed_heuristics_'' @ a))), w1))
            else
            (case count_loop env server (files_to_process_for_ms2 candidate_files_for_ms2)
                    0 [] w1 of
               (Inl e, w2) \<Rightarrow> (Raised e d2, w2)
             | (Inr (total_ms2_spectra_for_study, processed_file_details), w2) \<Rightarrow>
             (let d3 = d2(''selected_files_for_ms2_analysis'' \<mapsto>
                           PList (map selected_file_dict processed_file_details),
                         ''total_ms2_spectra_from_selected_files'' \<mapsto>
                           PInt total_ms2_spectra_for_study)
              in
              (case str_lower llm_assessment of
                 Inl e \<Rightarrow> (Raised e d3, w2)
               | Inr a \<Rightarrow>
                   (Returned (d3(''ms2_count_source_type'' \<mapsto>
                       PStr (''ftp_analysis_'' @ a @ ''_heuristic_filtered''))), w2))))))))
       | _ \<Rightarrow> (Raised AttributeError d1, w))))"

section \<open>Concrete inputs\<close>

text \<open>An environment whose every shell command times out; the world counts the calls.\<close>

definition quiet_env :: "nat env" where
  "quiet_env = \<lparr>run_shell = (\<lambda>cmd t w. (TimeoutExpired, Suc w)),
                 urlparse = (\<lambda>s. None),
                 py_int = (\<lambda>s. None),
                 msconvert_count = (\<lambda>s p w. (0, Suc w))\<rparr>"

definition rejected_record :: dataset where
  "rejected_record = [''study_id'' \<mapsto> PStr ''MSV000001'',
                      ''llm_assessment'' \<mapsto> PStr ''REJECTED'',
                      ''ftp_link'' \<mapsto> PStr ''ftp://massive.ucsd.edu/MSV000001'']"

definition unassessed_record :: dataset where
  "unassessed_record = [''study_id'' \<mapsto> PStr ''MSV000002'',
                        ''ftp_link'' \<mapsto> PStr ''ftp://massive.ucsd.edu/MSV000002'']"

definition unlinked_record :: dataset where
  "unlinked_record = [''study_id'' \<mapsto> PStr ''MSV000003'',
                      ''llm_assessment'' \<mapsto> PStr ''MAYBE'',
                      ''ftp_link'' \<mapsto> PStr []]"








text \<open>A listing of two spectrum files and a directory, and an environment that answers
  every listing with it and every count with 42.\<close>

definition listing :: string where
  "listing = ''/MSV000005/ctrl_raw_grain_01.MGF'' @ [newline]
           @ ''/MSV000005/beer_final_03.MGF'' @ [newline]
           @ ''/MSV000005/peaks/'' @ [newline]"

definition stub_env :: "nat env" where
  "stub_env = \<lparr>run_shell = (\<lambda>cmd t w. if prefix ''lftp'' cmd
                                         then (Completed 0 listing [], Suc w)
                                         else (Completed 0 ''42'' [], Suc w)),
                urlparse = (\<lambda>s. Some (''massive.ucsd.edu'', ''/MSV000005'')),
                py_int = (\<lambda>s. if s = ''42'' then Some 42 else None),
                msconvert_count = (\<lambda>s p w. (0, Suc w))\<rparr>"

definition maybe_record :: dataset where
  "maybe_record = [''study_id'' \<mapsto> PStr ''MSV000005'',
                   ''llm_assessment'' \<mapsto> PStr ''MAYBE'',
                   ''ftp_link'' \<mapsto> PStr ''ftp://massive.ucsd.edu/MSV000005'']"

definition listed_file :: file_info where
  "listed_file = \<lparr>ftp_full_path = ''/MSV000005/beer_final_03.MGF'',
                   file_info.filename = ''beer_final_03.MGF'',
                   file_info.file_ext_lower = ''.mgf''\<rparr>"

definition stub_files :: "file_info list" where
  "stub_files = [\<lparr>ftp_full_path = ''/MSV000005/ctrl_raw_grain_01.MGF'',
                   file_info.filename = ''ctrl_raw_grain_01.MGF'',
                   file_info.file_ext_lower = ''.mgf''\<rparr>,
                 listed_file]"


section \<open>Evaluating on concrete text\<close>

text \<open>The lower-case map read off the bits of a character, for the evaluation of the
  concrete examples below.\<close>

lemma lower_char_bits [code]:
  "lower_char (Char b0 b1 b2 b3 b4 b5 b6 b7) =
     (if b6 \<and> \<not> b5
         \<and> (if b7 then \<not> (b4 \<and> b2 \<and> b1 \<and> b0)
             else (b0 \<or> b1 \<or> b2 \<or> b3 \<or> b4) \<and> \<not> (b4 \<and> b3 \<and> (b2 \<or> (b1 \<and> b0))))
      then Char b0 b1 b2 b3 b4 True b6 b7
      else Char b0 b1 b2 b3 b4 b5 b6 b7)"
  by (cases b0; cases b1; cases b2; cases b3; cases b4; cases b5; cases b6; cases b7;
      simp add: lower_char_def is_upper_def ord_def Let_def char_of_eq_iff)

text \<open>Every term of the seven tables compiles: no pattern is lost.\<close>

lemma tables_compile:
  "map length [COMPILED_RAW, COMPILED_CONTROL, COMPILED_GENERIC_EDIBLE_PART,
               COMPILED_PROCESSED, COMPILED_NON_EDIBLE, COMPILED_TREATMENT, COMPILED_QC]
   = map length [RAW_TERMS, CONTROL_TERMS, GENERIC_EDIBLE_PART_TERMS,
                 PROCESSED_TERMS, NON_EDIBLE_PLANT_PARTS, TREATMENT_PATHOGEN_TERMS,
                 NON_SAMPLE_QC_TERMS]"
  by code_simp

section \<open>The filename classifier\<close>

text \<open>
  C2. A filename that matches any QC, blank or standard term is rejected with the reason
  \<^verbatim>\<open>qc_or_blank_file\<close>, whatever the assessment value and the food-key patterns are: the
  QC rule comes before every other rule.
\<close>

theorem qc_rejects_first:
  assumes "any_search COMPILED_QC filename_lower"
  shows "check_filename_relevance filename_lower derived_food_name_regex_list assessment_type
         = (False, ''qc_or_blank_file'')"
  using assms by (simp add: check_filename_relevance_def)

text \<open>The QC rule at \<^verbatim>\<open>blank_01.mzml\<close> in an accepted study.\<close>

theorem qc_rejects_first_witness:
  "any_search COMPILED_QC ''blank_01.mzml''
   \<and> check_filename_relevance ''blank_01.mzml'' [] (PStr ''ACCEPTED'')
       = (False, ''qc_or_blank_file'')"
proof -
  have h: "any_search COMPILED_QC ''blank_01.mzml''"
    by code_simp
  from h qc_rejects_first [OF h, of "[]" "PStr ''ACCEPTED''"] show ?thesis
    by (rule conjI)
qed

text \<open>
  C3. The classifier never answers with the reason
  \<^verbatim>\<open>maybe_treatment_file_no_food_match_lacks_explicit_control_raw\<close>: the branch that would
  return it sits inside a branch that already requires a raw or control match.
\<close>

theorem treatment_branch_unreachable:
  "snd (check_filename_relevance filename_lower derived_food_name_regex_list assessment_type)
   \<noteq> ''maybe_treatment_file_no_food_match_lacks_explicit_control_raw''"
  by (simp add: check_filename_relevance_def Let_def)

text \<open>
  C1, as the code has it. With the assessment \<^verbatim>\<open>MAYBE\<close>:
  a filename that matches no QC term, some PROCESSED term and neither a CONTROL nor a RAW
  term is rejected with the reason \<^verbatim>\<open>maybe_processed_product_no_raw_control_signal\<close>;
  a filename that matches a CONTROL term and no QC term is kept;
  a filename that matches a RAW term and no QC term is kept, provided that, if it matches a
  NON_EDIBLE term, it also matches a GENERIC_EDIBLE_PART or a CONTROL term.
  So adding a control or raw term to a rejected filename gives a kept one whenever the
  result matches that term and passes the QC rule and, for a raw term, the non-edible rule.
\<close>

theorem maybe_processed_rule:
  "(any_search COMPILED_PROCESSED f \<and> \<not> any_search COMPILED_CONTROL f
      \<and> \<not> any_search COMPILED_RAW f \<and> \<not> any_search COMPILED_QC f
    \<longrightarrow> check_filename_relevance f derived_food_name_regex_list (PStr ''MAYBE'')
          = (False, ''maybe_processed_product_no_raw_control_signal''))
   \<and> (any_search COMPILED_CONTROL g \<and> \<not> any_search COMPILED_QC g
      \<longrightarrow> fst (check_filename_relevance g derived_food_name_regex_list (PStr ''MAYBE'')))
   \<and> (any_search COMPILED_RAW h \<and> \<not> any_search COMPILED_QC h
       \<and> (any_search COMPILED_NON_EDIBLE h
            \<longrightarrow> any_search COMPILED_GENERIC_EDIBLE_PART h \<or> any_search COMPILED_CONTROL h)
      \<longrightarrow> fst (check_filename_relevance h derived_food_name_regex_list (PStr ''MAYBE'')))"
  by (simp add: check_filename_relevance_def Let_def)

text \<open>\<^verbatim>\<open>beer.mgf\<close> is rejected as a processed product; with a control term
  (\<^verbatim>\<open>beer_ctrl.mgf\<close>) or a raw term (\<^verbatim>\<open>fresh_beer.mgf\<close>) added it is kept.\<close>

theorem maybe_processed_rule_witness:
  "(any_search COMPILED_PROCESSED ''beer.mgf'' \<and> \<not> any_search COMPILED_CONTROL ''beer.mgf''
      \<and> \<not> any_search COMPILED_RAW ''beer.mgf'' \<and> \<not> any_search COMPILED_QC ''beer.mgf'')
   \<and> check_filename_relevance ''beer.mgf'' [] (PStr ''MAYBE'')
          = (False, ''maybe_processed_product_no_raw_control_signal'')
   \<and> (any_search COMPILED_CONTROL ''beer_ctrl.mgf'' \<and> \<not> any_search COMPILED_QC ''beer_ctrl.mgf'')
   \<and> fst (check_filename_relevance ''beer_ctrl.mgf'' [] (PStr ''MAYBE''))
   \<and> (any_search COMPILED_RAW ''fresh_beer.mgf'' \<and> \<not> any_search COMPILED_QC ''fresh_beer.mgf''
       \<and> \<not> any_search COMPILED_NON_EDIBLE ''fresh_beer.mgf'')
   \<and> fst (check_filename_relevance ''fresh_beer.mgf'' [] (PStr ''MAYBE''))"
proof -
  have hf: "any_search COMPILED_PROCESSED ''beer.mgf'' \<and> \<not> any_search COMPILED_CONTROL ''beer.mgf''
      \<and> \<not> any_search COMPILED_RAW ''beer.mgf'' \<and> \<not> any_search COMPILED_QC ''beer.mgf''"
    by code_simp
  have hg: "any_search COMPILED_CONTROL ''beer_ctrl.mgf''
      \<and> \<not> any_search COMPILED_QC ''beer_ctrl.mgf''"
    by code_simp
  have hh: "any_search COMPILED_RAW ''fresh_beer.mgf'' \<and> \<not> any_search COMPILED_QC ''fresh_beer.mgf''
       \<and> \<not> any_search COMPILED_NON_EDIBLE ''fresh_beer.mgf''"
    by code_simp
  from hf hg hh
    maybe_processed_rule [of "''beer.mgf''" "[]" "''beer_ctrl.mgf''" "''fresh_beer.mgf''"]
  show ?thesis by blast
qed

text \<open>
  C1, as the claim words it, fails twice. \<^verbatim>\<open>beer_blank.mgf\<close> matches a PROCESSED term and
  neither a CONTROL nor a RAW term, and its reason is the QC one. \<^verbatim>\<open>beer_leaf.mgf\<close> is
  rejected as a processed product, and with the RAW term \<^verbatim>\<open>fresh\<close> added it is still
  rejected, as a non-edible part.
\<close>

theorem maybe_processed_rule_counterexample:
  "(any_search COMPILED_PROCESSED ''beer_blank.mgf''
      \<and> \<not> any_search COMPILED_CONTROL ''beer_blank.mgf''
      \<and> \<not> any_search COMPILED_RAW ''beer_blank.mgf''
      \<and> check_filename_relevance ''beer_blank.mgf'' [] (PStr ''MAYBE'')
          = (False, ''qc_or_blank_file''))
   \<and> check_filename_relevance ''beer_leaf.mgf'' [] (PStr ''MAYBE'')
       = (False, ''maybe_processed_product_no_raw_control_signal'')
   \<and> any_search COMPILED_RAW ''fresh_beer_leaf.mgf''
   \<and> check_filename_relevance ''fresh_beer_leaf.mgf'' [] (PStr ''MAYBE'')
       = (False, ''maybe_non_edible_part_no_edible_control_signal'')"
  by code_simp

section \<open>The cap on the files that are counted\<close>

lemma insort_key_front:
  "\<forall>y\<in>set ys. f x \<le> f y \<Longrightarrow> insort_key f x ys = x # ys"
  by (cases ys) simp_all

lemma insort_key_pass:
  "\<forall>a\<in>set as. f a < f x \<Longrightarrow> insort_key f x (as @ bs) = as @ insort_key f x bs"
  by (induction as) auto

text \<open>A stable sort on a key with two values puts the first class, in its order, before
  the second class, in its order.\<close>

lemma sort_key_two_classes:
  fixes f :: "'a \<Rightarrow> nat"
  assumes "\<And>x. f x = 0 \<or> f x = 1"
  shows "sort_key f xs = filter (\<lambda>x. f x = 0) xs @ filter (\<lambda>x. f x \<noteq> 0) xs"
proof (induction xs)
  case Nil
  show ?case by simp
next
  case (Cons x xs)
  show ?case
  proof (cases "f x = 0")
    case True
    then show ?thesis using Cons by (simp add: insort_key_front)
  next
    case False
    then have fx: "f x = 1" using assms [of x] by simp
    have "insort_key f x (filter (\<lambda>x. f x = 0) xs @ filter (\<lambda>x. f x \<noteq> 0) xs)
          = filter (\<lambda>x. f x = 0) xs @ insort_key f x (filter (\<lambda>x. f x \<noteq> 0) xs)"
      by (rule insort_key_pass) (simp add: fx)
    moreover have "insort_key f x (filter (\<lambda>x. f x \<noteq> 0) xs) = x # filter (\<lambda>x. f x \<noteq> 0) xs"
    proof (rule insort_key_front, rule ballI)
      fix y assume "y \<in> set (filter (\<lambda>x. f x \<noteq> 0) xs)"
      then have "f y \<noteq> 0" by simp
      then have "f y = 1" using assms [of y] by simp
      then show "f x \<le> f y" using fx by simp
    qed
    ultimately show ?thesis using Cons False by simp
  qed
qed

text \<open>
  Within one dataset the sort key is the same for every kept file: the reason of a kept
  file mentions control or raw exactly when the assessment is \<^verbatim>\<open>MAYBE\<close>.
\<close>

lemma kept_reasons_share_key:
  assumes "check_filename_relevance filename_lower pats assessment = (True, reason)"
  shows "(contains ''control'' (lower reason) \<or> contains ''raw'' (lower reason))
         = (assessment = PStr ''MAYBE'')"
proof -
  have k1: "\<not> (contains ''control'' (lower ''accepted_study_non_qc_file'')
              \<or> contains ''raw'' (lower ''accepted_study_non_qc_file''))"
    by code_simp
  have k2: "contains ''control'' (lower ''maybe_food_match_with_raw_control_or_edible_term'')"
    by code_simp
  have k3: "contains ''control'' (lower ''maybe_no_food_match_but_strong_raw_control_signal'')"
    by code_simp
  from assms consider
      "assessment = PStr ''ACCEPTED''" "reason = ''accepted_study_non_qc_file''"
    | "assessment = PStr ''MAYBE''"
      "reason = ''maybe_food_match_with_raw_control_or_edible_term''"
    | "assessment = PStr ''MAYBE''"
      "reason = ''maybe_no_food_match_but_strong_raw_control_signal''"
    by (auto simp add: check_filename_relevance_def Let_def split: if_splits)
  then show ?thesis
  proof cases
    case 1
    with k1 show ?thesis by simp
  next
    case 2
    with k2 show ?thesis by simp
  next
    case 3
    with k3 show ?thesis by simp
  qed
qed

text \<open>Over the cap, on any list of candidates: the first ten of the candidates that
  mention control or raw, in their order, followed by the others, in their order.\<close>

lemma files_to_process_over_cap:
  assumes "length candidate_files_for_ms2 > MAX_FILES_FOR_MS2_COUNTING"
  shows "files_to_process_for_ms2 candidate_files_for_ms2 =
           take 10 (filter mentions_control_or_raw candidate_files_for_ms2
                    @ filter (\<lambda>x. \<not> mentions_control_or_raw x) candidate_files_for_ms2)"
proof -
  have two: "\<And>x. priority_key x = 0 \<or> priority_key x = 1"
    by (simp add: priority_key_def)
  have k0: "(\<lambda>x. priority_key x = 0) = mentions_control_or_raw"
    by (rule ext) (simp add: priority_key_def)
  have k1: "(\<lambda>x. priority_key x \<noteq> 0) = (\<lambda>x. \<not> mentions_control_or_raw x)"
    by (rule ext) (simp add: priority_key_def)
  have "files_to_process_for_ms2 candidate_files_for_ms2
        = take 10 (sort_key priority_key candidate_files_for_ms2)"
    using assms by (simp add: files_to_process_for_ms2_def MAX_FILES_FOR_MS2_COUNTING_def)
  then show ?thesis
    unfolding sort_key_two_classes [of priority_key, OF two] k0 k1 by simp
qed

text \<open>On any list with exactly ten candidates that mention control or raw, those ten are
  the files to process. By \<open>kept_reasons_share_key\<close> no list the candidate loop builds
  mixes the two kinds, so within a dataset this case does not arise.\<close>

lemma exactly_cap_mentioning:
  assumes "length candidate_files_for_ms2 > MAX_FILES_FOR_MS2_COUNTING"
    and "length (filter mentions_control_or_raw candidate_files_for_ms2) = 10"
  shows "files_to_process_for_ms2 candidate_files_for_ms2
         = filter mentions_control_or_raw candidate_files_for_ms2"
  using assms by (simp add: files_to_process_over_cap)

text \<open>The candidate loop in closed form: the kept files are the relevant files that need
  no disabled conversion, in the order of the listing, each with a count of 0.\<close>

lemma candidate_loop_closed_form:
  "fst (foldl (candidate_step rx a) (cands, n) fis) =
     cands @ map (\<lambda>fi. \<lparr>ftp_file_path = ftp_full_path fi,
                          filename = file_info.filename fi,
                          file_ext_lower = file_info.file_ext_lower fi,
                          heuristic_match_reason =
                            snd (check_filename_relevance (lower (file_info.filename fi)) rx a),
                          ms2_spectra_in_file = 0\<rparr>)
                 (filter (\<lambda>fi. fst (check_filename_relevance (lower (file_info.filename fi)) rx a)
                               \<and> \<not> (file_info.file_ext_lower fi
                                        \<in> set MSCONVERT_SUPPORTED_RAW_EXTENSIONS
                                      \<and> \<not> ENABLE_MSCONVERT_PROCESSING)) fis)"
proof (induction fis arbitrary: cands n)
  case Nil
  show ?case by simp
next
  case (Cons fi fis)
  obtain cands' n' where st: "candidate_step rx a (cands, n) fi = (cands', n')"
    by (cases "candidate_step rx a (cands, n) fi")
  show ?case
    using st Cons [of cands' n']
    by (auto simp add: candidate_step_def Let_def split: prod.splits if_splits)
qed


text \<open>Within a dataset every kept file has the same sort key, so the sort keeps the
  listing order and the cap takes the first ten kept files.\<close>

lemma kept_share_key:
  assumes "foldl (candidate_step rx a) ([], 0) fis = (kept, n)"
  shows "\<forall>x\<in>set kept. mentions_control_or_raw x = (a = PStr ''MAYBE'')"
proof -
  have key: "(contains ''control'' (lower (snd (check_filename_relevance f rx a)))
              \<or> contains ''raw'' (lower (snd (check_filename_relevance f rx a))))
             = (a = PStr ''MAYBE'')"
    if "fst (check_filename_relevance f rx a)" for f
  proof -
    have "check_filename_relevance f rx a = (True, snd (check_filename_relevance f rx a))"
      using that by (simp add: prod_eq_iff)
    then show ?thesis by (rule kept_reasons_share_key)
  qed
  have "kept = fst (foldl (candidate_step rx a) ([], 0) fis)"
    using assms by simp
  then show ?thesis
    unfolding candidate_loop_closed_form
    by (auto simp add: mentions_control_or_raw_def key)
qed

lemma cap_takes_first_kept:
  assumes "foldl (candidate_step rx a) ([], 0) fis = (kept, n)"
  shows "files_to_process_for_ms2 kept = take 10 kept"
proof (cases "length kept > MAX_FILES_FOR_MS2_COUNTING")
  case False
  then show ?thesis
    by (simp add: files_to_process_for_ms2_def MAX_FILES_FOR_MS2_COUNTING_def)
next
  case True
  have "filter mentions_control_or_raw kept @ filter (\<lambda>x. \<not> mentions_control_or_raw x) kept
        = kept"
    using kept_share_key [OF assms] by (cases "a = PStr ''MAYBE''") simp_all
  with files_to_process_over_cap [OF True] show ?thesis by simp
qed

lemma count_loop_details:
  "count_loop env server fs t ds w = (Inr (t', ds'), w')
   \<Longrightarrow> map (\<lambda>f. f\<lparr>ms2_spectra_in_file := 0\<rparr>) ds'
       = map (\<lambda>f. f\<lparr>ms2_spectra_in_file := 0\<rparr>) (ds @ fs)"
proof (induction fs arbitrary: t ds w)
  case Nil
  then show ?case by simp
next
  case (Cons f fs)
  then show ?case
    by (auto split: prod.splits sum.splits)
qed



lemma files_to_process_length:
  "length (files_to_process_for_ms2 cs) \<le> MAX_FILES_FOR_MS2_COUNTING"
  by (simp add: files_to_process_for_ms2_def)

lemma counted_length:
  assumes "count_loop env server (files_to_process_for_ms2 cs) 0 [] w1 = (Inr (t, ds), w2)"
  shows "length ds \<le> 10"
proof -
  have "length ds = length (files_to_process_for_ms2 cs)"
    using count_loop_details [OF assms, THEN arg_cong, of length] by simp
  with files_to_process_length [of cs] show ?thesis
    by (simp add: MAX_FILES_FOR_MS2_COUNTING_def)
qed

text \<open>
  C5. Whatever the record, the food key and the answers of the outside world are, the
  list under \<^verbatim>\<open>selected_files_for_ms2_analysis\<close> in the record that
  \<^verbatim>\<open>process_single_dataset\<close> leaves behind has at most 10 entries.
\<close>

theorem selected_files_at_most_cap:
  "\<exists>xs. record_of (fst (process_single_dataset env dataset_info_item food_item_key w))
            ''selected_files_for_ms2_analysis'' = Some (PList xs) \<and> length xs \<le> 10"
  by (auto simp add: process_single_dataset_def Let_def
        split: pyval.splits sum.splits prod.splits dest: counted_length)

section \<open>Files that would need a conversion\<close>

lemma descriptor_supported:
  "descriptor_of_line line = Some fi
   \<Longrightarrow> file_info.file_ext_lower fi \<in> set SUPPORTED_EXTENSIONS_LOWER"
  by (auto simp add: descriptor_of_line_def Let_def split: if_splits)

lemma map_filter_source:
  "y \<in> set (List.map_filter f xs) \<Longrightarrow> \<exists>x. f x = Some y"
  by (induction xs) (auto split: option.splits)

lemma listed_supported:
  "list_mass_spec_files_recursively env server base w = (Inr fis, w1) \<Longrightarrow> fi \<in> set fis
   \<Longrightarrow> file_info.file_ext_lower fi \<in> set SUPPORTED_EXTENSIONS_LOWER"
  by (auto simp add: list_mass_spec_files_recursively_def Let_def
        split: prod.splits proc_result.splits if_splits
        dest!: map_filter_source dest: descriptor_supported)

lemma supported_not_msconvert:
  "x \<in> set SUPPORTED_EXTENSIONS_LOWER \<Longrightarrow> x \<notin> set MSCONVERT_SUPPORTED_RAW_EXTENSIONS"
  by (auto simp add: SUPPORTED_EXTENSIONS_LOWER_def MSCONVERT_SUPPORTED_RAW_EXTENSIONS_def)

lemma candidate_step_supported:
  "file_info.file_ext_lower fi \<in> set SUPPORTED_EXTENSIONS_LOWER
   \<Longrightarrow> snd (candidate_step rx a st fi) = snd st"
  by (auto simp add: candidate_step_def Let_def split: prod.splits
        dest: supported_not_msconvert)

lemma foldl_candidate_step_supported:
  "\<forall>fi\<in>set fis. file_info.file_ext_lower fi \<in> set SUPPORTED_EXTENSIONS_LOWER
   \<Longrightarrow> snd (foldl (candidate_step rx a) st fis) = snd st"
  by (induction fis arbitrary: st) (simp_all add: candidate_step_supported)

lemma none_skipped:
  assumes "list_mass_spec_files_recursively env server base w = (Inr fis, w1)"
    and "foldl (candidate_step rx a) ([], 0) fis = (cands, n)"
  shows "n = 0"
proof -
  have "\<forall>fi\<in>set fis. file_info.file_ext_lower fi \<in> set SUPPORTED_EXTENSIONS_LOWER"
    using listed_supported [OF assms(1)] by simp
  from foldl_candidate_step_supported [OF this, of rx a "([], 0)"] assms(2)
  show ?thesis by simp
qed

text \<open>
  C9. Every descriptor the lister produces has its extension in
  \<^verbatim>\<open>SUPPORTED_EXTENSIONS_LOWER\<close> and not in \<^verbatim>\<open>MSCONVERT_SUPPORTED_RAW_EXTENSIONS\<close>; the two
  lists have no element in common; hence no listed file reaches the branch that skips it
  as needing msconvert, and the record that \<^verbatim>\<open>process_single_dataset\<close> leaves behind
  always has \<^verbatim>\<open>unsupported_files_skipped_count\<close> equal to 0.
\<close>

theorem msconvert_skip_unreachable:
  "(\<forall>fis w1. list_mass_spec_files_recursively env server base_ftp_path w = (Inr fis, w1)
       \<longrightarrow> (\<forall>fi\<in>set fis.
              file_info.file_ext_lower fi \<in> set SUPPORTED_EXTENSIONS_LOWER
              \<and> file_info.file_ext_lower fi \<notin> set MSCONVERT_SUPPORTED_RAW_EXTENSIONS))
   \<and> set SUPPORTED_EXTENSIONS_LOWER \<inter> set MSCONVERT_SUPPORTED_RAW_EXTENSIONS = {}
   \<and> record_of (fst (process_single_dataset env dataset_info_item food_item_key w))
        ''unsupported_files_skipped_count'' = Some (PInt 0)"
proof (intro conjI)
  show "\<forall>fis w1. list_mass_spec_files_recursively env server base_ftp_path w = (Inr fis, w1)
       \<longrightarrow> (\<forall>fi\<in>set fis.
              file_info.file_ext_lower fi \<in> set SUPPORTED_EXTENSIONS_LOWER
              \<and> file_info.file_ext_lower fi \<notin> set MSCONVERT_SUPPORTED_RAW_EXTENSIONS)"
    by (auto dest: listed_supported supported_not_msconvert)
  show "set SUPPORTED_EXTENSIONS_LOWER \<inter> set MSCONVERT_SUPPORTED_RAW_EXTENSIONS = {}"
    using supported_not_msconvert by blast
  show "record_of (fst (process_single_dataset env dataset_info_item food_item_key w))
        ''unsupported_files_skipped_count'' = Some (PInt 0)"
    by (auto simp add: process_single_dataset_def Let_def
        split: pyval.splits sum.splits prod.splits dest: none_skipped)
qed

text \<open>A listing that holds \<^verbatim>\<open>beer_final_03.MGF\<close>, and a dataset processed on it.\<close>

theorem msconvert_skip_unreachable_witness:
  "list_mass_spec_files_recursively stub_env ''massive.ucsd.edu'' ''/MSV000005'' 0
     = (Inr stub_files, 1)
   \<and> listed_file \<in> set stub_files
   \<and> file_info.file_ext_lower listed_file \<in> set SUPPORTED_EXTENSIONS_LOWER
   \<and> file_info.file_ext_lower listed_file \<notin> set MSCONVERT_SUPPORTED_RAW_EXTENSIONS
   \<and> record_of (fst (process_single_dataset stub_env maybe_record ''grain'' 0))
        ''unsupported_files_skipped_count'' = Some (PInt 0)"
proof -
  have l: "list_mass_spec_files_recursively stub_env ''massive.ucsd.edu'' ''/MSV000005'' 0
           = (Inr stub_files, 1)"
    by code_simp
  have m: "listed_file \<in> set stub_files"
    by (simp add: stub_files_def)
  from l m msconvert_skip_unreachable
           [of stub_env "''massive.ucsd.edu''" "''/MSV000005''" 0 maybe_record "''grain''"]
  show ?thesis by blast
qed

section \<open>The paths that end before any network use\<close>

text \<open>
  C6, as the code has it. A record whose assessment is \<^verbatim>\<open>REJECTED\<close> comes back with
  the source type \<^verbatim>\<open>rejected_by_llm\<close>, an empty selected-file list, a total of 0 and
  also \<^verbatim>\<open>unsupported_files_skipped_count\<close> set to 0; every other field is as it was.
  The result does not mention the environment and the world is the one that was passed
  in: nothing was listed and nothing was counted.
\<close>

theorem rejected_short_circuit:
  assumes "dataset_info_item ''llm_assessment'' = Some (PStr ''REJECTED'')"
  shows "process_single_dataset env dataset_info_item food_item_key w =
     (Returned (dataset_info_item(
        ''selected_files_for_ms2_analysis'' \<mapsto> PList [],
        ''total_ms2_spectra_from_selected_files'' \<mapsto> PInt 0,
        ''unsupported_files_skipped_count'' \<mapsto> PInt 0,
        ''ms2_count_source_type'' \<mapsto> PStr ''rejected_by_llm'')), w)"
  using assms by (simp add: process_single_dataset_def get_default_def Let_def)

text \<open>A rejected record, with an environment that would change the world at any call.\<close>

theorem rejected_short_circuit_witness:
  "rejected_record ''llm_assessment'' = Some (PStr ''REJECTED'')
   \<and> process_single_dataset quiet_env rejected_record ''rice'' 0 =
     (Returned (rejected_record(
        ''selected_files_for_ms2_analysis'' \<mapsto> PList [],
        ''total_ms2_spectra_from_selected_files'' \<mapsto> PInt 0,
        ''unsupported_files_skipped_count'' \<mapsto> PInt 0,
        ''ms2_count_source_type'' \<mapsto> PStr ''rejected_by_llm'')), 0)"
proof -
  have h: "rejected_record ''llm_assessment'' = Some (PStr ''REJECTED'')"
    by (simp add: rejected_record_def)
  from h rejected_short_circuit [of rejected_record quiet_env "''rice''" 0, OF h] show ?thesis
    by (rule conjI)
qed

text \<open>
  C6, as the claim words it, fails: a field other than the source type, the selected-file
  list and the total changes. The rejected record has no
  \<^verbatim>\<open>unsupported_files_skipped_count\<close> before the call and has it, set to 0, after.
\<close>

theorem rejected_frame_counterexample:
  "rejected_record ''unsupported_files_skipped_count'' = None
   \<and> record_of (fst (process_single_dataset quiet_env rejected_record ''rice'' 0))
        ''unsupported_files_skipped_count'' = Some (PInt 0)"
  by (simp add: process_single_dataset_def get_default_def rejected_record_def Let_def)

text \<open>
  C10. A record with no \<^verbatim>\<open>llm_assessment\<close> field is treated as a rejected one: source
  type \<^verbatim>\<open>rejected_by_llm\<close>, empty selected-file list, total 0, and the world untouched.
\<close>

theorem missing_assessment_is_rejected:
  assumes "dataset_info_item ''llm_assessment'' = None"
  shows "process_single_dataset env dataset_info_item food_item_key w =
     (Returned (dataset_info_item(
        ''selected_files_for_ms2_analysis'' \<mapsto> PList [],
        ''total_ms2_spectra_from_selected_files'' \<mapsto> PInt 0,
        ''unsupported_files_skipped_count'' \<mapsto> PInt 0,
        ''ms2_count_source_type'' \<mapsto> PStr ''rejected_by_llm'')), w)"
  using assms by (simp add: process_single_dataset_def get_default_def Let_def)

text \<open>A record without the field.\<close>

theorem missing_assessment_is_rejected_witness:
  "unassessed_record ''llm_assessment'' = None
   \<and> process_single_dataset quiet_env unassessed_record ''rice'' 0 =
     (Returned (unassessed_record(
        ''selected_files_for_ms2_analysis'' \<mapsto> PList [],
        ''total_ms2_spectra_from_selected_files'' \<mapsto> PInt 0,
        ''unsupported_files_skipped_count'' \<mapsto> PInt 0,
        ''ms2_count_source_type'' \<mapsto> PStr ''rejected_by_llm'')), 0)"
proof -
  have h: "unassessed_record ''llm_assessment'' = None"
    by (simp add: unassessed_record_def)
  from h missing_assessment_is_rejected [of unassessed_record quiet_env "''rice''" 0, OF h]
  show ?thesis
    by (rule conjI)
qed

text \<open>
  C8. A record that is not rejected (its assessment, \<^verbatim>\<open>REJECTED\<close> by default, is another
  value) and whose \<^verbatim>\<open>ftp_link\<close> is missing, null, or a string that does not start with
  \<^verbatim>\<open>ftp://\<close> comes back with an empty selected-file list, a total of 0 and the source type
  \<^verbatim>\<open>no_ftp_link\<close>, and the world is untouched.
\<close>

theorem no_ftp_link_short_circuit:
  assumes "get_default dataset_info_item ''llm_assessment'' (PStr ''REJECTED'')
           \<noteq> PStr ''REJECTED''"
    and "dataset_info_item ''ftp_link'' = None
         \<or> dataset_info_item ''ftp_link'' = Some PNone
         \<or> (\<exists>link. dataset_info_item ''ftp_link'' = Some (PStr link)
                    \<and> \<not> startswith link ''ftp://'')"
  shows "process_single_dataset env dataset_info_item food_item_key w =
     (Returned (dataset_info_item(
        ''selected_files_for_ms2_analysis'' \<mapsto> PList [],
        ''total_ms2_spectra_from_selected_files'' \<mapsto> PInt 0,
        ''unsupported_files_skipped_count'' \<mapsto> PInt 0,
        ''ms2_count_source_type'' \<mapsto> PStr ''no_ftp_link'')), w)"
  using assms by (auto simp add: process_single_dataset_def get_default_def Let_def)

text \<open>A record assessed \<^verbatim>\<open>MAYBE\<close> whose link is the empty string the scraper leaves.\<close>

theorem no_ftp_link_short_circuit_witness:
  "get_default unlinked_record ''llm_assessment'' (PStr ''REJECTED'') \<noteq> PStr ''REJECTED''
   \<and> (\<exists>link. unlinked_record ''ftp_link'' = Some (PStr link) \<and> \<not> startswith link ''ftp://'')
   \<and> process_single_dataset quiet_env unlinked_record ''rice'' 0 =
     (Returned (unlinked_record(
        ''selected_files_for_ms2_analysis'' \<mapsto> PList [],
        ''total_ms2_spectra_from_selected_files'' \<mapsto> PInt 0,
        ''unsupported_files_skipped_count'' \<mapsto> PInt 0,
        ''ms2_count_source_type'' \<mapsto> PStr ''no_ftp_link'')), 0)"
proof -
  have h1: "get_default unlinked_record ''llm_assessment'' (PStr ''REJECTED'')
            \<noteq> PStr ''REJECTED''"
    by (simp add: unlinked_record_def get_default_def)
  have h2: "\<exists>link. unlinked_record ''ftp_link'' = Some (PStr link)
                   \<and> \<not> startswith link ''ftp://''"
    by (simp add: unlinked_record_def startswith_def)
  have h3: "unlinked_record ''ftp_link'' = None
         \<or> unlinked_record ''ftp_link'' = Some PNone
         \<or> (\<exists>link. unlinked_record ''ftp_link'' = Some (PStr link)
                    \<and> \<not> startswith link ''ftp://'')"
    using h2 by blast
  from h1 h2 no_ftp_link_short_circuit [of unlinked_record quiet_env "''rice''" 0, OF h1 h3]
  show ?thesis
    by blast
qed

section \<open>Properties of the food-key patterns\<close>

lemma special_not_alnum:
  "is_special c \<Longrightarrow> \<not> is_ascii_alnum c \<and> c \<noteq> CHR ''b''"
  by (auto simp add: is_special_def is_ascii_alnum_def ord_def bslash_def)

lemma plain_not_meta:
  "\<not> is_special c \<Longrightarrow> c \<noteq> bslash \<and> c \<noteq> CHR ''['' \<and> c \<noteq> CHR ''('' \<and> \<not> is_meta c"
  by (auto simp add: is_special_def is_meta_def)

lemma re_escape_Cons:
  "re_escape (c # s) = (if is_special c then [bslash, c] else [c]) @ re_escape s"
  by (simp add: re_escape_def)

lemma re_escape_Nil: "re_escape [] = []"
  by (simp add: re_escape_def)

lemma re_parse_escape:
  "re_parse (re_escape s @ r) = map_option (\<lambda>as. map Lit s @ as) (re_parse r)"
proof (induction s)
  case Nil
  show ?case by (simp add: re_escape_Nil option.map_ident)
next
  case (Cons c s)
  show ?case
  proof (cases "is_special c")
    case True
    with special_not_alnum [OF True] Cons show ?thesis
      by (simp add: re_escape_Cons option.map_comp comp_def)
  next
    case False
    with plain_not_meta [OF False] Cons show ?thesis
      by (simp add: re_escape_Cons option.map_comp comp_def)
  qed
qed

lemma re_parse_word:
  "re_parse (wb @ re_escape s @ wb) = Some (Bnd # map Lit s @ [Bnd])"
proof -
  have "re_parse wb = Some [Bnd]"
    by (simp add: wb_def)
  then have "re_parse (re_escape s @ wb) = Some (map Lit s @ [Bnd])"
    by (simp add: re_parse_escape)
  then show ?thesis
    by (simp add: wb_def)
qed

lemma compile_all_words:
  "\<forall>x\<in>set xs. \<exists>s. x = wb @ re_escape s @ wb
   \<Longrightarrow> \<exists>rgxs. compile_all xs = Inr rgxs \<and> map pattern rgxs = xs"
proof (induction xs)
  case Nil
  show ?case by simp
next
  case (Cons x xs)
  from Cons.prems obtain s where x: "x = wb @ re_escape s @ wb" by auto
  from Cons obtain rgxs where r: "compile_all xs = Inr rgxs" "map pattern rgxs = xs" by auto
  show ?case
    using x r by (simp add: re_compile_def re_parse_word)
qed

lemma food_regex_strings_words:
  "x \<in> set (food_regex_strings key) \<Longrightarrow> \<exists>s. x = wb @ re_escape s @ wb"
  by (auto simp add: food_regex_strings_def token_regex_strings_def Let_def split: if_splits)

lemma is_special_bslash: "is_special bslash"
  by (simp add: is_special_def)

lemma re_escape_inj: "re_escape s = re_escape t \<Longrightarrow> s = t"
proof (induction s arbitrary: t)
  case Nil
  then show ?case by (cases t) (auto simp add: re_escape_Nil re_escape_Cons split: if_splits)
next
  case (Cons c s)
  show ?case
  proof (cases t)
    case Nil
    with Cons.prems show ?thesis
      by (auto simp add: re_escape_Nil re_escape_Cons split: if_splits)
  next
    case (Cons d t')
    with Cons.prems Cons.IH [of t'] is_special_bslash show ?thesis
      by (auto simp add: re_escape_Cons split: if_splits)
  qed
qed

text \<open>
  C7. The generator is a function of the key: the empty key gives no pattern; for every
  key it returns, without raising, patterns whose texts are sorted and pairwise distinct;
  the result does not depend on the order in which \<^verbatim>\<open>set(regex_strings)\<close> is iterated,
  since sorting any duplicate-free enumeration of that set gives the same list; and no
  underscore-delimited part of length 2 or less has a pattern among the per-part patterns.
\<close>

theorem food_key_patterns:
  "get_derived_food_name_regex_list [] = Inr []
   \<and> (\<exists>rgxs. get_derived_food_name_regex_list food_item_key_str = Inr rgxs
             \<and> distinct (map pattern rgxs) \<and> sorted (map pattern rgxs))
   \<and> (\<forall>ys. distinct ys \<and> set ys = set (food_regex_strings food_item_key_str)
         \<longrightarrow> sort ys = sort (remdups (food_regex_strings food_item_key_str)))
   \<and> (\<forall>part\<in>set (split_on CHR ''_'' food_item_key_str).
         length part \<le> 2
         \<longrightarrow> wb @ re_escape part @ wb \<notin> set (token_regex_strings food_item_key_str))"
proof (intro conjI)
  show "get_derived_food_name_regex_list [] = Inr []"
    by (simp add: get_derived_food_name_regex_list_def)
next
  let ?xs = "sort (remdups (food_regex_strings food_item_key_str))"
  have "\<forall>x\<in>set ?xs. \<exists>s. x = wb @ re_escape s @ wb"
    using food_regex_strings_words by simp
  from compile_all_words [OF this]
  obtain rgxs where r: "compile_all ?xs = Inr rgxs" "map pattern rgxs = ?xs" by blast
  have "distinct ?xs" "sorted ?xs" by simp_all
  with r show "\<exists>rgxs. get_derived_food_name_regex_list food_item_key_str = Inr rgxs
             \<and> distinct (map pattern rgxs) \<and> sorted (map pattern rgxs)"
    by (cases "food_item_key_str = []")
       (simp_all add: get_derived_food_name_regex_list_def Let_def)
next
  show "\<forall>ys. distinct ys \<and> set ys = set (food_regex_strings food_item_key_str)
         \<longrightarrow> sort ys = sort (remdups (food_regex_strings food_item_key_str))"
  proof (intro allI impI)
    fix ys :: "string list"
    assume a: "distinct ys \<and> set ys = set (food_regex_strings food_item_key_str)"
    show "sort ys = sort (remdups (food_regex_strings food_item_key_str))"
      by (rule sorted_distinct_set_unique) (use a in simp_all)
  qed
next
  show "\<forall>part\<in>set (split_on CHR ''_'' food_item_key_str).
         length part \<le> 2
         \<longrightarrow> wb @ re_escape part @ wb \<notin> set (token_regex_strings food_item_key_str)"
    by (auto simp add: token_regex_strings_def Let_def dest: re_escape_inj)
qed

text \<open>The key \<^verbatim>\<open>ab_rice\<close>: the part \<^verbatim>\<open>ab\<close> has no per-part pattern, and the two pattern
  texts enumerated in the other order sort to the same list.\<close>

theorem food_key_patterns_witness:
  "''ab'' \<in> set (split_on CHR ''_'' ''ab_rice'') \<and> length ''ab'' \<le> 2
   \<and> wb @ re_escape ''ab'' @ wb \<notin> set (token_regex_strings ''ab_rice'')
   \<and> distinct [wb @ ''ab_rice'' @ wb, wb @ ''rice'' @ wb]
   \<and> set [wb @ ''ab_rice'' @ wb, wb @ ''rice'' @ wb] = set (food_regex_strings ''ab_rice'')
   \<and> sort [wb @ ''ab_rice'' @ wb, wb @ ''rice'' @ wb]
       = sort (remdups (food_regex_strings ''ab_rice''))"
proof -
  have h1: "''ab'' \<in> set (split_on CHR ''_'' ''ab_rice'') \<and> length ''ab'' \<le> 2"
    by simp
  have f: "food_regex_strings ''ab_rice'' = [wb @ ''rice'' @ wb, wb @ ''ab_rice'' @ wb]"
    by code_simp
  have h2: "distinct [wb @ ''ab_rice'' @ wb, wb @ ''rice'' @ wb]
            \<and> set [wb @ ''ab_rice'' @ wb, wb @ ''rice'' @ wb]
                = set (food_regex_strings ''ab_rice'')"
    unfolding f by auto
  from h1 h2 food_key_patterns [of "''ab_rice''"] show ?thesis
    by blast
qed

section \<open>A dataset end to end\<close>

text \<open>
  The record assessed \<^verbatim>\<open>MAYBE\<close> on the stub environment, with the food key
  \<^verbatim>\<open>grain\<close>: the control file is selected and counted, the beer file is rejected, and
  the world has seen two commands, the listing and one count. The food pattern does not
  match \<^verbatim>\<open>ctrl_raw_grain_01\<close>, since the underscore is a word character.
\<close>

lemma end_to_end_scenario:
  "(let (r, w) = process_single_dataset stub_env maybe_record ''grain'' 0
    in (map (record_of r) [''selected_files_for_ms2_analysis'',
                           ''total_ms2_spectra_from_selected_files'',
                           ''unsupported_files_skipped_count'',
                           ''ms2_count_source_type''], w))
   = ([Some (PList [PDict [
          (''ftp_file_path'', PStr ''/MSV000005/ctrl_raw_grain_01.MGF''),
          (''filename'', PStr ''ctrl_raw_grain_01.MGF''),
          (''file_ext_lower'', PStr ''.mgf''),
          (''heuristic_match_reason'',
             PStr ''maybe_no_food_match_but_strong_raw_control_signal''),
          (''ms2_spectra_in_file'', PInt 42)]]),
       Some (PInt 42), Some (PInt 0),
       Some (PStr ''ftp_analysis_maybe_heuristic_filtered'')], 2)"
  by code_simp

end
